theory Spec2Isabelle
  imports Complex_Main
begin

section \<open>Running a script against an external world\<close>

text \<open>
  The two programs of the repository are driver scripts: they parse the command line,
  call the room-acoustics library, the STL mesh loader, the WAV reader and the plotting
  library, and print.  A run is modelled as a program in a state-and-exception monad.
  The state is the external world (file system, library objects, figures), of an
  arbitrary type \<open>'x\<close>, together with the trace of the calls made so far.  Every
  external call may change the world and may raise.
\<close>

datatype exn =
    ImportError string
  | SystemExit int
  | IndexError
  | LibraryError string

type_synonym point = "rat \<times> rat \<times> rat"
type_synonym triangle = "point \<times> point \<times> point"

text \<open>What \<open>pra.Material(...)\<close> is read for: the two coefficient arrays.\<close>

record material =
  energy_absorption_coeffs :: "rat list"
  scattering_coeffs :: "rat list"

text \<open>
  One event per statement of the scripts that reaches outside the interpreter, with the
  arguments the script passes.  \<open>'a\<close> is an audio buffer, \<open>'w\<close> a wall object and
  \<open>'r\<close> a room object of the library.
\<close>

datatype ('a, 'w, 'r) event =
    Import string
  | Print string
  | PrintInt int
  | PrintFormat string rat
  | WavfileRead string
  | MaterialNew string string
  | MeshFromFile "string option"
  | WallFactory "rat list list" "rat list" "rat list"
  | RoomNew "'w list" int int bool bool
  | AddSource 'r "rat list" "'a option" rat
  | AddMicrophone 'r "rat list"
  | MovMicrophone 'r int "rat list"
  | ImageSourceModel 'r
  | RayTracing 'r
  | ComputeRir 'r
  | PlotRir 'r
  | RoomPlot 'r int
  | PltShow
  | InverseSabine rat "rat list"
  | AddMicrophoneArray 'r "rat list list"
  | Simulate 'r
  | ToWav 'r string bool string
  | MeasureRt60 'r
  | GetRir 'r
  | GetFs 'r
  | GetSignals 'r
  | PltFigure
  | PltSubplot int int int
  | PltPlotTime nat int "rat list"
  | PltPlot "rat list"
  | PltTitle string
  | PltXlabel string
  | PltTightLayout

type_synonym ('x, 'e) world = "'x \<times> 'e list"
type_synonym ('x, 'e, 'v) prog = "('x, 'e) world \<Rightarrow> (exn + 'v) \<times> ('x, 'e) world"

definition ret :: "'v \<Rightarrow> ('x, 'e, 'v) prog" where
  "ret v = (\<lambda>s. (Inr v, s))"

definition raise :: "exn \<Rightarrow> ('x, 'e, 'v) prog" where
  "raise e = (\<lambda>s. (Inl e, s))"

definition bind :: "('x, 'e, 'u) prog \<Rightarrow> ('u \<Rightarrow> ('x, 'e, 'v) prog) \<Rightarrow> ('x, 'e, 'v) prog" where
  "bind m f = (\<lambda>s. case m s of (Inl e, s') \<Rightarrow> (Inl e, s') | (Inr v, s') \<Rightarrow> f v s')"

text \<open>An external call: the event is logged, the world answers and moves on.\<close>

definition ext :: "'e \<Rightarrow> ('x \<Rightarrow> (exn + 'v) \<times> 'x) \<Rightarrow> ('x, 'e, 'v) prog" where
  "ext ev f = (\<lambda>(x, tr). case f x of (r, x') \<Rightarrow> (r, (x', tr @ [ev])))"

text \<open>\<open>print\<close>: logged, never failing.\<close>

definition emit :: "'e \<Rightarrow> ('x, 'e, unit) prog" where
  "emit ev = (\<lambda>(x, tr). (Inr (), (x, tr @ [ev])))"

text \<open>
  The external collaborators, each a function of its arguments and the world.  The
  methods of a room mutate the object inside the world and the script keeps its
  reference; \<open>add_source\<close> returns the room itself, which the scripts chain on.
\<close>

record ('x, 'a, 'w, 'r) env =
  import_module :: "string \<Rightarrow> 'x \<Rightarrow> (exn + unit) \<times> 'x"
  wavfile_read :: "string \<Rightarrow> 'x \<Rightarrow> (exn + int \<times> 'a) \<times> 'x"
  Material :: "string \<Rightarrow> string \<Rightarrow> 'x \<Rightarrow> (exn + material) \<times> 'x"
  mesh_from_file :: "string option \<Rightarrow> 'x \<Rightarrow> (exn + triangle list) \<times> 'x"
  wall_factory :: "rat list list \<Rightarrow> rat list \<Rightarrow> rat list \<Rightarrow> 'x \<Rightarrow> (exn + 'w) \<times> 'x"
  Room :: "'w list \<Rightarrow> int \<Rightarrow> int \<Rightarrow> bool \<Rightarrow> bool \<Rightarrow> 'x \<Rightarrow> (exn + 'r) \<times> 'x"
  add_source :: "'r \<Rightarrow> rat list \<Rightarrow> 'a option \<Rightarrow> rat \<Rightarrow> 'x \<Rightarrow> (exn + 'r) \<times> 'x"
  add_microphone :: "'r \<Rightarrow> rat list \<Rightarrow> 'x \<Rightarrow> (exn + unit) \<times> 'x"
  mov_microphone :: "'r \<Rightarrow> int \<Rightarrow> rat list \<Rightarrow> 'x \<Rightarrow> (exn + unit) \<times> 'x"
  image_source_model :: "'r \<Rightarrow> 'x \<Rightarrow> (exn + unit) \<times> 'x"
  ray_tracing :: "'r \<Rightarrow> 'x \<Rightarrow> (exn + unit) \<times> 'x"
  compute_rir :: "'r \<Rightarrow> 'x \<Rightarrow> (exn + unit) \<times> 'x"
  plot_rir :: "'r \<Rightarrow> 'x \<Rightarrow> (exn + unit) \<times> 'x"
  room_plot :: "'r \<Rightarrow> int \<Rightarrow> 'x \<Rightarrow> (exn + unit) \<times> 'x"
  plt :: "('a, 'w, 'r) event \<Rightarrow> 'x \<Rightarrow> (exn + unit) \<times> 'x"
  inverse_sabine :: "rat \<Rightarrow> rat list \<Rightarrow> 'x \<Rightarrow> (exn + rat \<times> int) \<times> 'x"
  add_microphone_array :: "'r \<Rightarrow> rat list list \<Rightarrow> 'x \<Rightarrow> (exn + unit) \<times> 'x"
  simulate :: "'r \<Rightarrow> 'x \<Rightarrow> (exn + unit) \<times> 'x"
  to_wav :: "'r \<Rightarrow> string \<Rightarrow> bool \<Rightarrow> string \<Rightarrow> 'x \<Rightarrow> (exn + unit) \<times> 'x"
  measure_rt60 :: "'r \<Rightarrow> 'x \<Rightarrow> (exn + rat list list) \<times> 'x"
  get_rir :: "'r \<Rightarrow> 'x \<Rightarrow> (exn + rat list list list) \<times> 'x"
  get_fs :: "'r \<Rightarrow> 'x \<Rightarrow> (exn + int) \<times> 'x"
  get_signals :: "'r \<Rightarrow> 'x \<Rightarrow> (exn + rat list list) \<times> 'x"

section \<open>room\_from\_stl.py\<close>

definition hint :: string where
  "hint = ''The numpy-stl package is required for this example. '' @
          ''Install it with `pip install numpy-stl`''"

text \<open>The import statements of lines 8 to 17, in order.\<close>

definition stl_imports :: "string list" where
  "stl_imports = [''argparse'', ''os'', ''soundfile'', ''scipy.io'', ''matplotlib.pyplot'',
     ''numpy'', ''mpl_toolkits'', ''pyroomacoustics'']"

fun import_all :: "('x, 'a, 'w, 'r) env \<Rightarrow> string list \<Rightarrow> ('x, ('a, 'w, 'r) event, unit) prog" where
  "import_all E [] = ret ()"
| "import_all E (m # ms) = bind (ext (Import m) (import_module E m)) (\<lambda>_. import_all E ms)"

text \<open>
  Lines 19 to 26: \<open>try: from stl import mesh\<close>; an \<open>ImportError\<close> is caught, the hint
  is printed and the error raised again.  Any other exception passes uncaught.
\<close>

definition import_stl :: "('x, 'a, 'w, 'r) env \<Rightarrow> ('x, ('a, 'w, 'r) event, unit) prog" where
  "import_stl E = (\<lambda>s. case ext (Import ''stl'') (import_module E ''stl'') s of
       (Inl (ImportError m), s') \<Rightarrow> bind (emit (Print hint)) (\<lambda>_. raise (ImportError m)) s'
     | (r, s') \<Rightarrow> (r, s'))"

record stl_args =
  args_file :: "string option"

definition path_to_musis_stl_file :: string where
  "path_to_musis_stl_file = ''/home/jzhou3083/work/pyroomacoustics/examples/data/CR2.stl''"

definition guitar_16k :: string where
  "guitar_16k = ''/home/jzhou3083/work/pyroomacoustics/examples/samples/guitar_16k.wav''"

text \<open>\<open>the_mesh.vectors[w].T / size_reduc_factor\<close>: the triangle as a 3 by 3 array with
  one row per coordinate, each entry divided by the factor.\<close>

fun corners :: "triangle \<Rightarrow> rat \<Rightarrow> rat list list" where
  "corners ((x0, y0, z0), (x1, y1, z1), (x2, y2, z2)) f =
     [[x0 / f, x1 / f, x2 / f], [y0 / f, y1 / f, y2 / f], [z0 / f, z1 / f, z2 / f]]"

text \<open>Lines 47 to 55: one wall per triangle, \<open>w\<close> running over \<open>range(ntriang)\<close>.\<close>

fun make_walls ::
  "('x, 'a, 'w, 'r) env \<Rightarrow> triangle list \<Rightarrow> rat \<Rightarrow> material \<Rightarrow> nat list \<Rightarrow> 'w list \<Rightarrow>
   ('x, ('a, 'w, 'r) event, 'w list) prog" where
  "make_walls E vectors f mat [] walls = ret walls"
| "make_walls E vectors f mat (w # ws) walls =
     bind (ext (WallFactory (corners (vectors ! w) f) (energy_absorption_coeffs mat) (scattering_coeffs mat))
            (wall_factory E (corners (vectors ! w) f) (energy_absorption_coeffs mat) (scattering_coeffs mat)))
       (\<lambda>wall. make_walls E vectors f mat ws (walls @ [wall]))"

text \<open>Lines 31 to 77, the body under \<open>if __name__ == "__main__"\<close>.  The argument is
  what \<open>parse_args\<close> returned.\<close>

definition stl_main :: "('x, 'a, 'w, 'r) env \<Rightarrow> stl_args \<Rightarrow> ('x, ('a, 'w, 'r) event, unit) prog" where
  "stl_main E args0 =
    (let args = args0\<lparr>args_file := Some path_to_musis_stl_file\<rparr> in
     bind (ext (MaterialNew ''anechoic'' ''no_scattering'') (Material E ''anechoic'' ''no_scattering'')) (\<lambda>mat.
     bind (ext (WavfileRead guitar_16k) (wavfile_read E guitar_16k)) (\<lambda>(fs, audio).
     bind (ext (MeshFromFile (args_file args)) (mesh_from_file E (args_file args))) (\<lambda>vectors.
     let ntriang = length vectors; size_reduc_factor = 1 in
     bind (make_walls E vectors size_reduc_factor mat [0..<ntriang] []) (\<lambda>walls.
     bind (ext (RoomNew walls 16000 (- 3) True True) (Room E walls 16000 (- 3) True True)) (\<lambda>room0.
     bind (ext (AddSource room0 [- 2, 2, 18 / 10] (Some audio) (1 / 2))
            (add_source E room0 [- 2, 2, 18 / 10] (Some audio) (1 / 2))) (\<lambda>room.
     bind (ext (AddMicrophone room [- 65 / 10, 81 / 10, 2]) (add_microphone E room [- 65 / 10, 81 / 10, 2])) (\<lambda>_.
     bind (ext (AddMicrophone room [- 65 / 10, 81 / 10, 2]) (add_microphone E room [- 65 / 10, 81 / 10, 2])) (\<lambda>_.
     bind (ext (MovMicrophone room 0 [1, 41 / 10, 26 / 10]) (mov_microphone E room 0 [1, 41 / 10, 26 / 10])) (\<lambda>_.
     bind (ext (ImageSourceModel room) (image_source_model E room)) (\<lambda>_.
     bind (ext (RayTracing room) (ray_tracing E room)) (\<lambda>_.
     bind (ext (ComputeRir room) (compute_rir E room)) (\<lambda>_.
     bind (ext (PlotRir room) (plot_rir E room)) (\<lambda>_.
     bind (ext (RoomPlot room 1) (room_plot E room 1)) (\<lambda>_.
     ext PltShow (plt E PltShow))))))))))))))))"

text \<open>The whole script.  \<open>is_main\<close> says whether the file runs as a script
  (\<open>__name__ == "__main__"\<close>); \<open>user_file\<close> is the optional positional argument.\<close>

definition room_from_stl ::
  "('x, 'a, 'w, 'r) env \<Rightarrow> bool \<Rightarrow> string option \<Rightarrow> ('x, ('a, 'w, 'r) event, unit) prog" where
  "room_from_stl E is_main user_file =
     bind (import_all E stl_imports) (\<lambda>_.
     bind (import_stl E) (\<lambda>_.
     if is_main then stl_main E \<lparr>args_file = user_file\<rparr> else ret ()))"

section \<open>room\_from\_rt60\_CR2.py\<close>

definition rt60_imports :: "string list" where
  "rt60_imports = [''argparse'', ''matplotlib.pyplot'', ''numpy'', ''scipy.io'', ''pyroomacoustics'']"

definition methods :: "string list" where
  "methods = [''ism'', ''hybrid'']"

record rt60_args =
  arg_method :: string

text \<open>Lines 26 to 36: the parser has the one option \<open>--method\<close> (\<open>-m\<close>), restricted to
  \<open>choices=methods\<close> and defaulting to \<open>methods[1]\<close>.  The argument is the value given on
  the command line, if any; a value outside the choices makes \<open>argparse\<close> exit with
  status 2.\<close>

definition parse_args :: "string option \<Rightarrow> ('x, 'e, rt60_args) prog" where
  "parse_args given =
     (case given of
        None \<Rightarrow> ret \<lparr>arg_method = methods ! 1\<rparr>
      | Some m \<Rightarrow> if m \<in> set methods then ret \<lparr>arg_method = m\<rparr> else raise (SystemExit 2))"

definition guitar_16k_reverb :: string where
  "guitar_16k_reverb =
     ''/home/jzhou3083/work/pyroomacoustics/examples/samples/guitar_16k_reverb_{only_ray_t}.wav''"

text \<open>\<open>np.c_[a, b]\<close> on two vectors: they become the columns of the result.\<close>

definition np_c :: "rat list \<Rightarrow> rat list \<Rightarrow> rat list list" where
  "np_c a b = map (\<lambda>(x, y). [x, y]) (zip a b)"

text \<open>Indexing raises \<open>IndexError\<close> out of range.\<close>

definition getitem :: "'v list \<Rightarrow> nat \<Rightarrow> ('x, 'e, 'v) prog" where
  "getitem xs i = (if i < length xs then ret (xs ! i) else raise IndexError)"

text \<open>Lines 38 to 130, the body under \<open>if __name__ == "__main__"\<close>, after
  \<open>parse_args\<close>.  The branches on \<open>args.method\<close> (lines 51 to 63) are comments in the
  source, so nothing here reads \<open>args\<close>.\<close>

definition rt60_main :: "('x, 'a, 'w, 'r) env \<Rightarrow> rt60_args \<Rightarrow> ('x, ('a, 'w, 'r) event, unit) prog" where
  "rt60_main E args =
    (let rt60_tgt = 3 / 10; room_dim = [10, 75 / 10, 35 / 10] in
     bind (ext (WavfileRead guitar_16k) (wavfile_read E guitar_16k)) (\<lambda>(fs, audio).
     bind (ext (InverseSabine rt60_tgt room_dim) (inverse_sabine E rt60_tgt room_dim)) (\<lambda>(e_absorption, max_order).
     bind (emit (PrintInt max_order)) (\<lambda>_.
     bind (ext (MeshFromFile (Some path_to_musis_stl_file)) (mesh_from_file E (Some path_to_musis_stl_file))) (\<lambda>vectors.
     let ntriang = length vectors; size_reduc_factor = 1 in
     bind (ext (MaterialNew ''mat_CR2_concrete'' ''mat_CR2_concrete'')
            (Material E ''mat_CR2_concrete'' ''mat_CR2_concrete'')) (\<lambda>mat.
     bind (make_walls E vectors size_reduc_factor mat [0..<ntriang] []) (\<lambda>walls.
     bind (ext (RoomNew walls 8000 1 True True) (Room E walls 8000 1 True True)) (\<lambda>room0.
     bind (ext (AddSource room0 [- 2, 2, 18 / 10] None 0) (add_source E room0 [- 2, 2, 18 / 10] None 0)) (\<lambda>room.
     bind (ext (AddSource room [25 / 10, 373 / 100, 176 / 100] (Some audio) (1 / 2))
            (add_source E room [25 / 10, 373 / 100, 176 / 100] (Some audio) (1 / 2))) (\<lambda>_.
     let mic_locs = np_c [63 / 10, 487 / 100, 12 / 10] [63 / 10, 493 / 100, 12 / 10] in
     bind (ext (AddMicrophoneArray room mic_locs) (add_microphone_array E room mic_locs)) (\<lambda>_.
     bind (ext (Simulate room) (simulate E room)) (\<lambda>_.
     bind (ext (ToWav room guitar_16k_reverb True ''int16'') (to_wav E room guitar_16k_reverb True ''int16'')) (\<lambda>_.
     bind (ext (MeasureRt60 room) (measure_rt60 E room)) (\<lambda>rt60.
     bind (emit (PrintFormat ''The desired RT60 was {}'' rt60_tgt)) (\<lambda>_.
     bind (getitem rt60 1) (\<lambda>rt60_1.
     bind (getitem rt60_1 0) (\<lambda>rt60_1_0.
     bind (emit (PrintFormat ''The measured RT60 is {}'' rt60_1_0)) (\<lambda>_.
     bind (ext PltFigure (plt E PltFigure)) (\<lambda>_.
     bind (ext (GetRir room) (get_rir E room)) (\<lambda>rir.
     bind (getitem rir 1) (\<lambda>rir_1.
     bind (getitem rir_1 0) (\<lambda>rir_1_0.
     bind (ext (PltSubplot 2 1 1) (plt E (PltSubplot 2 1 1))) (\<lambda>_.
     bind (ext (GetFs room) (get_fs E room)) (\<lambda>room_fs.
     bind (ext (PltPlotTime (length rir_1_0) room_fs rir_1_0)
            (plt E (PltPlotTime (length rir_1_0) room_fs rir_1_0))) (\<lambda>_.
     bind (ext (PltTitle ''The RIR from source 0 to mic 1'') (plt E (PltTitle ''The RIR from source 0 to mic 1''))) (\<lambda>_.
     bind (ext (PltXlabel ''Time [s]'') (plt E (PltXlabel ''Time [s]''))) (\<lambda>_.
     bind (ext (PltSubplot 2 1 2) (plt E (PltSubplot 2 1 2))) (\<lambda>_.
     bind (ext (GetSignals room) (get_signals E room)) (\<lambda>signals.
     bind (getitem signals 1) (\<lambda>signals_1.
     bind (ext (PltPlot signals_1) (plt E (PltPlot signals_1))) (\<lambda>_.
     bind (ext (PltTitle ''Microphone 1 signal'') (plt E (PltTitle ''Microphone 1 signal''))) (\<lambda>_.
     bind (ext (PltXlabel ''Time [s]'') (plt E (PltXlabel ''Time [s]''))) (\<lambda>_.
     bind (ext PltTightLayout (plt E PltTightLayout)) (\<lambda>_.
     ext PltShow (plt E PltShow)))))))))))))))))))))))))))))))))))"

text \<open>The whole script; \<open>given\<close> is the value of \<open>--method\<close> on the command line.\<close>

definition room_from_rt60_CR2 ::
  "('x, 'a, 'w, 'r) env \<Rightarrow> bool \<Rightarrow> string option \<Rightarrow> ('x, ('a, 'w, 'r) event, unit) prog" where
  "room_from_rt60_CR2 E is_main given =
     bind (import_all E rt60_imports) (\<lambda>_.
     bind (import_stl E) (\<lambda>_.
     if is_main then bind (parse_args given) (\<lambda>args. rt60_main E args) else ret ()))"

section \<open>Observing a run\<close>

definition trace_of :: "(exn + 'v) \<times> ('x, 'e) world \<Rightarrow> 'e list" where
  "trace_of r = snd (snd r)"

definition outcome :: "(exn + 'v) \<times> ('x, 'e) world \<Rightarrow> exn + 'v" where
  "outcome r = fst r"

text \<open>The paths handed to \<open>mesh.Mesh.from_file\<close> during a run, in order.\<close>

fun loaded_meshes :: "('a, 'w, 'r) event list \<Rightarrow> string option list" where
  "loaded_meshes [] = []"
| "loaded_meshes (MeshFromFile p # es) = p # loaded_meshes es"
| "loaded_meshes (_ # es) = loaded_meshes es"

text \<open>\<open>logs P m\<close>: whatever the world answers, \<open>m\<close> only appends events that satisfy \<open>P\<close>.\<close>

definition logs :: "('e \<Rightarrow> bool) \<Rightarrow> ('x, 'e, 'v) prog \<Rightarrow> bool" where
  "logs P m = (\<forall>x tr. \<exists>evs. trace_of (m (x, tr)) = tr @ evs \<and> list_all P evs)"

definition hardcoded_only :: "('a, 'w, 'r) event \<Rightarrow> bool" where
  "hardcoded_only ev = (case ev of MeshFromFile p \<Rightarrow> p = Some path_to_musis_stl_file | _ \<Rightarrow> True)"

subsection \<open>Two concrete worlds\<close>

text \<open>A world in which every call succeeds: the mesh has one triangle, the room has two
  microphones and two sources.\<close>

definition ok :: "'v \<Rightarrow> unit \<Rightarrow> (exn + 'v) \<times> unit" where
  "ok v = (\<lambda>x. (Inr v, x))"

definition ok_env :: "(unit, unit, unit, unit) env" where
  "ok_env = \<lparr>
     import_module = (\<lambda>m. ok ()),
     wavfile_read = (\<lambda>p. ok (16000, ())),
     Material = (\<lambda>a s. ok \<lparr>energy_absorption_coeffs = [1], scattering_coeffs = [0]\<rparr>),
     mesh_from_file = (\<lambda>p. ok [((0, 0, 0), (1, 0, 0), (0, 1, 0))]),
     wall_factory = (\<lambda>c a s. ok ()),
     Room = (\<lambda>ws fs mo rt aa. ok ()),
     add_source = (\<lambda>r p s d. ok ()),
     add_microphone = (\<lambda>r p. ok ()),
     mov_microphone = (\<lambda>r i p. ok ()),
     image_source_model = (\<lambda>r. ok ()),
     ray_tracing = (\<lambda>r. ok ()),
     compute_rir = (\<lambda>r. ok ()),
     plot_rir = (\<lambda>r. ok ()),
     room_plot = (\<lambda>r i. ok ()),
     plt = (\<lambda>ev. ok ()),
     inverse_sabine = (\<lambda>t d. ok (1 / 2, 3)),
     add_microphone_array = (\<lambda>r m. ok ()),
     simulate = (\<lambda>r. ok ()),
     to_wav = (\<lambda>r p n b. ok ()),
     measure_rt60 = (\<lambda>r. ok [[3 / 10, 3 / 10], [3 / 10, 3 / 10]]),
     get_rir = (\<lambda>r. ok [[[1], [1]], [[1, 0], [1]]]),
     get_fs = (\<lambda>r. ok 8000),
     get_signals = (\<lambda>r. ok [[0], [0, 1]])\<rparr>"

text \<open>The same world without the numpy-stl package.\<close>

definition no_stl_env :: "(unit, unit, unit, unit) env" where
  "no_stl_env = ok_env\<lparr>import_module :=
     (\<lambda>m x. if m = ''stl'' then (Inl (ImportError ''No module named stl''), x) else (Inr (), x))\<rparr>"

section \<open>The simulation engine behind the scripts\<close>

text \<open>
  The scripts drive the image source engine and the ray tracing engine of the library
  (\<open>room.image_source_model()\<close>, \<open>room.ray_tracing()\<close>).  The library's files are not
  part of the two scripts, so the two engines are modelled from their specification.
  Geometry is exact, over the reals.
\<close>

subsection \<open>Geometry\<close>

type_synonym vec = "real \<times> real \<times> real"







text \<open>Modelled from the spec: the wall of the data model, "ordered sequence of 3D points
  (planar polygon), normal vector, energy-absorption coefficient, scattering
  coefficient" (the library's wall class is missing).\<close>

record wall =
  polygon :: "vec list"
  normal :: vec
  absorption :: real
  scattering :: real






subsection \<open>The image source engine\<close>





text \<open>Modelled from the spec: the engine's parameters, "a max order N (or negative
  sentinel meaning derive by energy threshold)", the "configurable threshold" of the
  energy-decay cutoff, and the "hard upper bound on recursion/iteration depth" that the
  spec makes mandatory.\<close>

record ism_params =
  max_order :: int
  energy_cutoff :: real
  depth_cap :: nat










subsection \<open>The ray tracing engine\<close>















subsection \<open>An L-shaped room of fully reflective walls\<close>








section \<open>Properties of the scripts\<close>

lemma logs_ret: "logs P (ret v)"
  by (simp add: logs_def ret_def trace_of_def)

lemma logs_raise: "logs P (raise e)"
  by (simp add: logs_def raise_def trace_of_def)

lemma logs_emit: "P ev \<Longrightarrow> logs P (emit ev)"
  by (simp add: logs_def emit_def trace_of_def)

lemma logs_ext: "P ev \<Longrightarrow> logs P (ext ev f)"
  by (simp add: logs_def ext_def trace_of_def split: prod.splits)

lemma logs_bind:
  assumes m: "logs P m" and f: "\<And>v. logs P (f v)"
  shows "logs P (bind m f)"
  unfolding logs_def
proof (intro allI)
  fix x tr
  obtain r x1 tr1 where r: "m (x, tr) = (r, (x1, tr1))"
    by (metis prod.exhaust)
  from m obtain evs where evs: "tr1 = tr @ evs" "list_all P evs"
    unfolding logs_def trace_of_def using r by (metis snd_conv)
  show "\<exists>evs. trace_of (bind m f (x, tr)) = tr @ evs \<and> list_all P evs"
  proof (cases r)
    case (Inl e)
    then show ?thesis using r evs by (auto simp: bind_def trace_of_def)
  next
    case (Inr v)
    from f[of v] obtain evs' where "trace_of (f v (x1, tr1)) = tr1 @ evs'" "list_all P evs'"
      unfolding logs_def by blast
    then show ?thesis using r evs Inr by (auto simp: bind_def trace_of_def)
  qed
qed

lemma logs_case_prod: "(\<And>a b. logs P (f a b)) \<Longrightarrow> logs P (case_prod f v)"
  by (cases v) simp

lemma logs_make_walls:
  "(\<And>c a s. P (WallFactory c a s)) \<Longrightarrow> logs P (make_walls E vectors f mat ws walls)"
  by (induction ws arbitrary: walls) (auto intro!: logs_ret logs_bind logs_ext)

lemma logs_import_all: "(\<And>m. P (Import m)) \<Longrightarrow> logs P (import_all E ms)"
  by (induction ms) (auto intro!: logs_ret logs_bind logs_ext)

lemma logs_import_stl:
  assumes "\<And>m. P (Import m)" "\<And>s. P (Print s)"
  shows "logs P (import_stl E)"
  unfolding logs_def
proof (intro allI)
  fix x tr
  obtain r x1 where r: "import_module E ''stl'' x = (r, x1)" by (metis prod.exhaust)
  show "\<exists>evs. trace_of (import_stl E (x, tr)) = tr @ evs \<and> list_all P evs"
    using r assms
    by (auto simp: import_stl_def ext_def bind_def emit_def raise_def trace_of_def
        split: sum.splits exn.splits)
qed

lemma logs_stl_main: "logs hardcoded_only (stl_main E a)"
  unfolding stl_main_def Let_def
  by (intro logs_bind logs_case_prod logs_ext logs_make_walls logs_emit logs_ret)
     (simp_all add: hardcoded_only_def)

lemma logs_room_from_stl: "logs hardcoded_only (room_from_stl E is_main u)"
  unfolding room_from_stl_def
  by (intro logs_bind logs_import_all logs_import_stl)
     (simp_all add: hardcoded_only_def logs_stl_main logs_ret)

lemma loaded_meshes_hardcoded:
  "list_all hardcoded_only evs \<Longrightarrow> set (loaded_meshes evs) \<subseteq> {Some path_to_musis_stl_file}"
  by (induction evs rule: loaded_meshes.induct) (simp_all add: hardcoded_only_def)

lemma import_all_trace:
  "import_all E ms (x, tr) = (Inr u, (x1, tr1)) \<Longrightarrow> tr1 = tr @ map Import ms"
proof (induction ms arbitrary: x tr)
  case Nil
  then show ?case by (simp add: ret_def)
next
  case (Cons m ms)
  obtain r x' where r: "import_module E m x = (r, x')" by (metis prod.exhaust)
  show ?case
  proof (cases r)
    case (Inl e)
    then show ?thesis using Cons.prems r by (simp add: bind_def ext_def)
  next
    case (Inr v)
    then have "import_all E ms (x', tr @ [Import m]) = (Inr u, (x1, tr1))"
      using Cons.prems r by (simp add: bind_def ext_def)
    from Cons.IH[OF this] show ?thesis by simp
  qed
qed

lemma import_stl_missing:
  "import_module E ''stl'' x1 = (Inl (ImportError m), x2) \<Longrightarrow>
   import_stl E (x1, tr) = (Inl (ImportError m), (x2, tr @ [Import ''stl'', Print hint]))"
  by (simp add: import_stl_def ext_def bind_def emit_def raise_def)

lemma rt60_main_ignores_args: "rt60_main E a = rt60_main E b"
  by (simp add: rt60_main_def)

lemma ok_env_simps:
  "import_module ok_env = (\<lambda>m. ok ())"
  "wavfile_read ok_env = (\<lambda>p. ok (16000, ()))"
  "Material ok_env = (\<lambda>a s. ok \<lparr>energy_absorption_coeffs = [1], scattering_coeffs = [0]\<rparr>)"
  "mesh_from_file ok_env = (\<lambda>p. ok [((0, 0, 0), (1, 0, 0), (0, 1, 0))])"
  "wall_factory ok_env = (\<lambda>c a s. ok ())"
  "Room ok_env = (\<lambda>ws fs mo rt aa. ok ())"
  "add_source ok_env = (\<lambda>r p s d. ok ())"
  "add_microphone ok_env = (\<lambda>r p. ok ())"
  "mov_microphone ok_env = (\<lambda>r i p. ok ())"
  "image_source_model ok_env = (\<lambda>r. ok ())"
  "ray_tracing ok_env = (\<lambda>r. ok ())"
  "compute_rir ok_env = (\<lambda>r. ok ())"
  "plot_rir ok_env = (\<lambda>r. ok ())"
  "room_plot ok_env = (\<lambda>r i. ok ())"
  "plt ok_env = (\<lambda>ev. ok ())"
  "inverse_sabine ok_env = (\<lambda>t d. ok (1 / 2, 3))"
  "add_microphone_array ok_env = (\<lambda>r m. ok ())"
  "simulate ok_env = (\<lambda>r. ok ())"
  "to_wav ok_env = (\<lambda>r p n b. ok ())"
  "measure_rt60 ok_env = (\<lambda>r. ok [[3 / 10, 3 / 10], [3 / 10, 3 / 10]])"
  "get_rir ok_env = (\<lambda>r. ok [[[1], [1]], [[1, 0], [1]]])"
  "get_fs ok_env = (\<lambda>r. ok 8000)"
  "get_signals ok_env = (\<lambda>r. ok [[0], [0, 1]])"
  by (simp_all add: ok_env_def)

lemma bind_ret: "bind (ret v) f = f v"
  by (simp add: bind_def ret_def)

lemma parse_args_Some: "m \<in> set methods \<Longrightarrow> parse_args (Some m) = ret \<lparr>arg_method = m\<rparr>"
  by (simp add: parse_args_def)

lemma parse_args_None: "parse_args None = ret \<lparr>arg_method = methods ! 1\<rparr>"
  by (simp add: parse_args_def)

text \<open>
  C9.  In \<open>room_from_stl.py\<close> the optional positional argument \<open>file\<close> is ignored: a run
  with any user-supplied path is the run without one, and every path the run hands to
  \<open>mesh.Mesh.from_file\<close> is the hardcoded \<open>CR2.stl\<close>.
\<close>

theorem stl_file_argument_ignored:
  "room_from_stl E is_main user_file = room_from_stl E is_main None \<and>
   set (loaded_meshes (trace_of (room_from_stl E is_main user_file (x, [])))) \<subseteq>
     {Some path_to_musis_stl_file}"
proof
  show "room_from_stl E is_main user_file = room_from_stl E is_main None"
    by (simp add: room_from_stl_def stl_main_def)
  from logs_room_from_stl[of E is_main user_file]
  obtain evs where "trace_of (room_from_stl E is_main user_file (x, [])) = [] @ evs"
    and "list_all hardcoded_only evs"
    unfolding logs_def by blast
  then show "set (loaded_meshes (trace_of (room_from_stl E is_main user_file (x, [])))) \<subseteq>
     {Some path_to_musis_stl_file}"
    using loaded_meshes_hardcoded by simp
qed

lemma ok_stl_run:
  "loaded_meshes (trace_of (room_from_stl ok_env True (Some ''/tmp/mine.stl'') ((), []))) =
     [Some path_to_musis_stl_file]"
  by (simp add: room_from_stl_def stl_imports_def import_stl_def stl_main_def bind_def ext_def
      ret_def ok_def ok_env_simps trace_of_def)

theorem stl_file_argument_ignored_witness:
  "room_from_stl ok_env True (Some ''/tmp/mine.stl'') = room_from_stl ok_env True None \<and>
   loaded_meshes (trace_of (room_from_stl ok_env True (Some ''/tmp/mine.stl'') ((), []))) =
     [Some path_to_musis_stl_file]"
  using stl_file_argument_ignored[of ok_env True "Some ''/tmp/mine.stl''" "()"] ok_stl_run
  by simp

text \<open>
  C8.  In \<open>room_from_rt60_CR2.py\<close> the parsed \<open>--method\<close> argument has no influence: two
  runs that differ only in the accepted value of \<open>--method\<close> (or in leaving it out) are
  the same program, so they make the same calls and end in the same world, trace and
  outcome.
\<close>

theorem method_argument_has_no_influence:
  assumes "m1 \<in> set methods" and "m2 \<in> set methods"
  shows "room_from_rt60_CR2 E is_main (Some m1) = room_from_rt60_CR2 E is_main (Some m2) \<and>
         room_from_rt60_CR2 E is_main None = room_from_rt60_CR2 E is_main (Some m1)"
  using assms rt60_main_ignores_args[of E "\<lparr>arg_method = m1\<rparr>" "\<lparr>arg_method = m2\<rparr>"]
    rt60_main_ignores_args[of E "\<lparr>arg_method = methods ! 1\<rparr>" "\<lparr>arg_method = m1\<rparr>"]
  by (simp add: room_from_rt60_CR2_def parse_args_Some parse_args_None bind_ret)

lemma ok_rt60_run:
  "outcome (room_from_rt60_CR2 ok_env True (Some ''ism'') ((), [])) = Inr ()"
  by (simp add: room_from_rt60_CR2_def rt60_imports_def import_stl_def parse_args_def methods_def
      rt60_main_def Let_def bind_def ext_def emit_def ret_def getitem_def ok_def ok_env_simps
      outcome_def)

theorem method_argument_has_no_influence_witness:
  "''ism'' \<in> set methods \<and> ''hybrid'' \<in> set methods \<and>
   room_from_rt60_CR2 ok_env True (Some ''ism'') = room_from_rt60_CR2 ok_env True (Some ''hybrid'') \<and>
   room_from_rt60_CR2 ok_env True None = room_from_rt60_CR2 ok_env True (Some ''ism'') \<and>
   outcome (room_from_rt60_CR2 ok_env True (Some ''hybrid'') ((), [])) = Inr ()"
proof -
  have a: "''ism'' \<in> set methods" and b: "''hybrid'' \<in> set methods"
    by (simp_all add: methods_def)
  from method_argument_has_no_influence[OF a b, of ok_env True] ok_rt60_run a b
  show ?thesis by simp
qed

text \<open>
  C10.  In both scripts, when the import of \<open>stl\<close> is reached and raises \<open>ImportError\<close>,
  the script prints the installation hint and raises the same error again: the run ends
  with that error, and its trace holds the imports and the hint and nothing else, so no
  room is built and nothing is simulated.
\<close>

theorem missing_stl_prints_hint_and_reraises:
  assumes "import_module E ''stl'' x1 = (Inl (ImportError m), x2)"
  shows "(import_all E stl_imports (x, []) = (Inr (), (x1, tr)) \<longrightarrow>
            room_from_stl E is_main user_file (x, []) =
              (Inl (ImportError m), (x2, map Import (stl_imports @ [''stl'']) @ [Print hint]))) \<and>
         (import_all E rt60_imports (x, []) = (Inr (), (x1, tr)) \<longrightarrow>
            room_from_rt60_CR2 E is_main given (x, []) =
              (Inl (ImportError m), (x2, map Import (rt60_imports @ [''stl'']) @ [Print hint])))"
proof (intro conjI impI)
  assume a: "import_all E stl_imports (x, []) = (Inr (), (x1, tr))"
  from import_all_trace[OF a] have "tr = map Import stl_imports" by simp
  then show "room_from_stl E is_main user_file (x, []) =
      (Inl (ImportError m), (x2, map Import (stl_imports @ [''stl'']) @ [Print hint]))"
    using a import_stl_missing[OF assms, of tr] by (simp add: room_from_stl_def bind_def)
next
  assume a: "import_all E rt60_imports (x, []) = (Inr (), (x1, tr))"
  from import_all_trace[OF a] have "tr = map Import rt60_imports" by simp
  then show "room_from_rt60_CR2 E is_main given (x, []) =
      (Inl (ImportError m), (x2, map Import (rt60_imports @ [''stl'']) @ [Print hint]))"
    using a import_stl_missing[OF assms, of tr] by (simp add: room_from_rt60_CR2_def bind_def)
qed

lemma no_stl_env_import:
  "import_module no_stl_env =
     (\<lambda>m x. if m = ''stl'' then (Inl (ImportError ''No module named stl''), x) else (Inr (), x))"
  by (simp add: no_stl_env_def)

lemma no_stl_imports:
  "import_all no_stl_env stl_imports ((), []) = (Inr (), ((), map Import stl_imports))"
  "import_all no_stl_env rt60_imports ((), []) = (Inr (), ((), map Import rt60_imports))"
  by (simp_all add: stl_imports_def rt60_imports_def bind_def ext_def ret_def no_stl_env_import)

theorem missing_stl_prints_hint_and_reraises_witness:
  "import_module no_stl_env ''stl'' () = (Inl (ImportError ''No module named stl''), ()) \<and>
   import_all no_stl_env stl_imports ((), []) = (Inr (), ((), map Import stl_imports)) \<and>
   import_all no_stl_env rt60_imports ((), []) = (Inr (), ((), map Import rt60_imports)) \<and>
   room_from_stl no_stl_env True None ((), []) =
     (Inl (ImportError ''No module named stl''),
      ((), map Import (stl_imports @ [''stl'']) @ [Print hint])) \<and>
   room_from_rt60_CR2 no_stl_env True (Some ''ism'') ((), []) =
     (Inl (ImportError ''No module named stl''),
      ((), map Import (rt60_imports @ [''stl'']) @ [Print hint]))"
proof -
  have h: "import_module no_stl_env ''stl'' () = (Inl (ImportError ''No module named stl''), ())"
    by (simp add: no_stl_env_import)
  from missing_stl_prints_hint_and_reraises[OF h, of "()" "map Import stl_imports" True None]
    missing_stl_prints_hint_and_reraises[OF h, of "()" "map Import rt60_imports" True _ "Some ''ism''"]
    no_stl_imports h
  show ?thesis by blast
qed

section \<open>Properties of the engines\<close>



































end
